theory Spec2Isabelle
  imports Main
begin

section \<open>Text: Python strings as lists of code points\<close>

text \<open>
  A Python \<^verbatim>\<open>str\<close> is a sequence of Unicode code points, so it is modelled as a list of
  natural numbers. What \<^verbatim>\<open>str.isdecimal\<close>, \<^verbatim>\<open>str.lower\<close>, \<^verbatim>\<open>str.title\<close> and the classes
  \<^verbatim>\<open>\d\<close> and \<^verbatim>\<open>\w\<close> do with a code point is read from the Unicode tables of the interpreter
  and of the \<^verbatim>\<open>regex\<close> module, which grow from one version to the next. The tables below
  are those of the alphabet the validators are written for, Basic Latin (U+0000..U+007F)
  and the Cyrillic letters U+0400..U+045F, on which every version agrees; outside it
  they say nothing about the code (a code point is then taken as a caseless symbol that
  is neither a digit nor a word character, which is right for some and wrong for
  others). A statement about every string that depends on these tables is therefore made
  for the strings of the alphabet, \<open>in_alphabet s\<close>. The two whitespace classes are
  complete: they are given for every code point.
\<close>

type_synonym ustr = "nat list"

definition alphabet :: "nat \<Rightarrow> bool" where
  "alphabet c = (c < 128 \<or> (1024 \<le> c \<and> c \<le> 1119))"

definition in_alphabet :: "ustr \<Rightarrow> bool" where
  "in_alphabet s = list_all alphabet s"

text \<open>The decimal digits of the alphabet: \<^verbatim>\<open>str.isdecimal\<close> and the class \<^verbatim>\<open>\d\<close> on it.\<close>

definition is_decimal :: "nat \<Rightarrow> bool" where
  "is_decimal c = (48 \<le> c \<and> c \<le> 57)"

text \<open>The cased letters of the alphabet, upper and lower.\<close>

definition is_upper :: "nat \<Rightarrow> bool" where
  "is_upper c = ((65 \<le> c \<and> c \<le> 90) \<or> (1024 \<le> c \<and> c \<le> 1071))"

definition is_lower :: "nat \<Rightarrow> bool" where
  "is_lower c = ((97 \<le> c \<and> c \<le> 122) \<or> (1072 \<le> c \<and> c \<le> 1119))"

definition is_cased :: "nat \<Rightarrow> bool" where
  "is_cased c = (is_upper c \<or> is_lower c)"

text \<open>
  Lower-casing and upper-casing of one code point: A-Z and a-z are 32 apart, as are
  U+0410..U+042F and U+0430..U+044F; U+0400..U+040F and U+0450..U+045F are 80 apart.
\<close>

definition to_lower :: "nat \<Rightarrow> nat" where
  "to_lower c =
     (if 65 \<le> c \<and> c \<le> 90 then c + 32
      else if 1040 \<le> c \<and> c \<le> 1071 then c + 32
      else if 1024 \<le> c \<and> c \<le> 1039 then c + 80
      else c)"

definition to_upper :: "nat \<Rightarrow> nat" where
  "to_upper c =
     (if 97 \<le> c \<and> c \<le> 122 then c - 32
      else if 1072 \<le> c \<and> c \<le> 1103 then c - 32
      else if 1104 \<le> c \<and> c \<le> 1119 then c - 80
      else c)"

text \<open>
  The whitespace that \<^verbatim>\<open>str.strip()\<close> removes: the code points on which \<^verbatim>\<open>str.isspace\<close>
  holds.
\<close>

definition is_space :: "nat \<Rightarrow> bool" where
  "is_space c =
     ((9 \<le> c \<and> c \<le> 13) \<or> (28 \<le> c \<and> c \<le> 32) \<or> c = 133 \<or> c = 160 \<or> c = 5760
      \<or> (8192 \<le> c \<and> c \<le> 8202) \<or> c = 8232 \<or> c = 8233 \<or> c = 8239 \<or> c = 8287
      \<or> c = 12288)"

text \<open>
  The class \<^verbatim>\<open>\s\<close> of the \<^verbatim>\<open>regex\<close> module: the code points with the Unicode property
  White_Space. Unlike \<^verbatim>\<open>str.isspace\<close> it does not hold of the separators U+001C..U+001F.
\<close>

definition rx_space :: "nat \<Rightarrow> bool" where
  "rx_space c =
     ((9 \<le> c \<and> c \<le> 13) \<or> c = 32 \<or> c = 133 \<or> c = 160 \<or> c = 5760
      \<or> (8192 \<le> c \<and> c \<le> 8202) \<or> c = 8232 \<or> c = 8233 \<or> c = 8239 \<or> c = 8287
      \<or> c = 12288)"

text \<open>
  The word characters of \<^verbatim>\<open>\w\<close> in the alphabet: its letters, its decimal digits and
  the underscore.
\<close>

definition is_word :: "nat \<Rightarrow> bool" where
  "is_word c = (is_cased c \<or> is_decimal c \<or> c = 95)"

subsection \<open>The string methods the validators call\<close>

definition lower :: "ustr \<Rightarrow> ustr" where
  "lower s = map to_lower s"

text \<open>
  \<^verbatim>\<open>str.title()\<close>: a cased character that follows a cased character is lower-cased,
  any other character is upper-cased (an uncased character is left as it is by both).
\<close>

fun title_from :: "bool \<Rightarrow> ustr \<Rightarrow> ustr" where
  "title_from previous_is_cased [] = []"
| "title_from previous_is_cased (c # cs) =
     (if previous_is_cased then to_lower c else to_upper c) # title_from (is_cased c) cs"

definition title :: "ustr \<Rightarrow> ustr" where
  "title s = title_from False s"

definition strip :: "ustr \<Rightarrow> ustr" where
  "strip s = rev (dropWhile is_space (rev (dropWhile is_space s)))"

text \<open>\<^verbatim>\<open>str.isdecimal()\<close> is false on the empty string.\<close>

definition isdecimal :: "ustr \<Rightarrow> bool" where
  "isdecimal s = (s \<noteq> [] \<and> list_all is_decimal s)"

definition startswith :: "ustr \<Rightarrow> ustr \<Rightarrow> bool" where
  "startswith s p = (take (length p) s = p)"

definition endswith :: "ustr \<Rightarrow> ustr \<Rightarrow> bool" where
  "endswith s p = (length p \<le> length s \<and> drop (length s - length p) s = p)"

text \<open>\<^verbatim>\<open>sub in s\<close>: \<open>sub\<close> occurs in \<open>s\<close> as a contiguous run.\<close>

fun contains :: "ustr \<Rightarrow> ustr \<Rightarrow> bool" where
  "contains [] sub = (sub = [])"
| "contains (c # cs) sub = (startswith (c # cs) sub \<or> contains cs sub)"

text \<open>
  \<^verbatim>\<open>s.replace(old, new)\<close>: the occurrences of \<open>old\<close> are found from left to right
  without overlap, and each is replaced. With an empty \<open>old\<close> Python puts \<open>new\<close> before
  every character and at the end.
\<close>

fun str_replace :: "ustr \<Rightarrow> ustr \<Rightarrow> ustr \<Rightarrow> ustr" where
  "str_replace [] old new = (if old = [] then new else [])"
| "str_replace (c # cs) old new =
     (if old = [] then new @ c # str_replace cs old new
      else if startswith (c # cs) old
        then new @ str_replace (drop (length old) (c # cs)) old new
      else c # str_replace cs old new)"

text \<open>\<^verbatim>\<open>s.split(sep)\<close> for a separator of one character; the empty string gives \<open>['']\<close>.\<close>

fun split :: "ustr \<Rightarrow> nat \<Rightarrow> ustr list" where
  "split [] sep = [[]]"
| "split (c # cs) sep =
     (if c = sep then [] # split cs sep
      else (case split cs sep of [] \<Rightarrow> [[c]] | w # ws \<Rightarrow> (c # w) # ws))"

text \<open>The slice \<^verbatim>\<open>s[i:j]\<close> for \<open>0 \<le> i \<le> j\<close>.\<close>

definition slice :: "ustr \<Rightarrow> nat \<Rightarrow> nat \<Rightarrow> ustr" where
  "slice s i j = take (j - i) (drop i s)"

section \<open>Regular expressions\<close>

text \<open>
  The patterns of the source use character classes, literals, concatenation,
  alternation, the greedy quantifiers \<^verbatim>\<open>?\<close>, \<^verbatim>\<open>*\<close> and \<^verbatim>\<open>+\<close> (the last two on
  character classes only), named groups and the anchors \<^verbatim>\<open>^\<close> and \<^verbatim>\<open>$\<close>. The matcher is
  the backtracking one: it lists the ways a pattern can match a prefix of the remaining
  text in the order a backtracking engine tries them, each with the text left over and
  the groups captured, and the first entry of the list is the match the engine reports.
\<close>

datatype rx =
    Chr "nat \<Rightarrow> bool"
  | Eps
  | Cat rx rx
  | Alt rx rx
  | Opt rx
  | Star "nat \<Rightarrow> bool"
  | Plus "nat \<Rightarrow> bool"
  | Grp string rx
  | Bos
  | Eos

type_synonym groups = "(string \<times> ustr) list"

text \<open>The prefixes a greedy class repetition can take, the longest first.\<close>

definition greedy :: "nat \<Rightarrow> (nat \<Rightarrow> bool) \<Rightarrow> ustr \<Rightarrow> groups \<Rightarrow> (ustr \<times> groups) list" where
  "greedy least P s g =
     map (\<lambda>k. (drop k s, g)) (rev [least ..< Suc (length (takeWhile P s))])"

fun rx_m :: "ustr \<Rightarrow> rx \<Rightarrow> ustr \<Rightarrow> groups \<Rightarrow> (ustr \<times> groups) list" where
  "rx_m whole (Chr P) s g = (case s of [] \<Rightarrow> [] | c # cs \<Rightarrow> if P c then [(cs, g)] else [])"
| "rx_m whole Eps s g = [(s, g)]"
| "rx_m whole (Cat a b) s g = concat (map (\<lambda>(s', g'). rx_m whole b s' g') (rx_m whole a s g))"
| "rx_m whole (Alt a b) s g = rx_m whole a s g @ rx_m whole b s g"
| "rx_m whole (Opt a) s g = rx_m whole a s g @ [(s, g)]"
| "rx_m whole (Star P) s g = greedy 0 P s g"
| "rx_m whole (Plus P) s g = greedy 1 P s g"
| "rx_m whole (Grp name a) s g =
     map (\<lambda>(s', g'). (s', (name, take (length s - length s') s) # g')) (rx_m whole a s g)"
| "rx_m whole Bos s g = (if length s = length whole then [(s, g)] else [])"
| "rx_m whole Eos s g = (if s = [] \<or> s = [10] then [(s, g)] else [])"

text \<open>
  \<^verbatim>\<open>pattern.match(s)\<close> tries the pattern at the start of \<open>s\<close> only and gives the groups
  of the first way it matches; \<^verbatim>\<open>pattern.search(s)\<close> tries every start position from
  the left and gives the span \<open>(start, end)\<close> of the first match.
\<close>

definition rx_match :: "rx \<Rightarrow> ustr \<Rightarrow> groups option" where
  "rx_match r s = (case rx_m s r s [] of [] \<Rightarrow> None | (s', g) # _ \<Rightarrow> Some g)"

fun search_from :: "rx \<Rightarrow> ustr \<Rightarrow> nat \<Rightarrow> ustr \<Rightarrow> (nat \<times> nat) option" where
  "search_from r whole i [] =
     (case rx_m whole r [] [] of (s', g) # _ \<Rightarrow> Some (i, i) | [] \<Rightarrow> None)"
| "search_from r whole i (c # cs) =
     (case rx_m whole r (c # cs) [] of
        (s', g) # _ \<Rightarrow> Some (i, i + (length (c # cs) - length s'))
      | [] \<Rightarrow> search_from r whole (Suc i) cs)"

definition rx_search :: "rx \<Rightarrow> ustr \<Rightarrow> (nat \<times> nat) option" where
  "rx_search r s = search_from r s 0 s"

definition groupdict :: "groups \<Rightarrow> string \<Rightarrow> ustr" where
  "groupdict g name = (case map_of g name of Some v \<Rightarrow> v | None \<Rightarrow> [])"

text \<open>
  A literal, case-sensitive or (under \<^verbatim>\<open>IGNORECASE\<close>) compared after case folding. In
  the alphabet two code points have the same case folding when they have the same lower
  case; the code points outside it that fold to one of its letters (such as U+1C81) are
  not in the tables.
\<close>

definition lit :: "ustr \<Rightarrow> rx" where
  "lit s = foldr (\<lambda>c r. Cat (Chr (\<lambda>x. x = c)) r) s Eps"

definition lit_i :: "ustr \<Rightarrow> rx" where
  "lit_i s = foldr (\<lambda>c r. Cat (Chr (\<lambda>x. to_lower x = to_lower c)) r) s Eps"

definition alts :: "rx list \<Rightarrow> rx" where
  "alts rs = (case rs of [] \<Rightarrow> Eps | r # rest \<Rightarrow> foldl Alt r rest)"

section \<open>Connection records and the object store\<close>

text \<open>
  Modelled from the spec: the class \<^verbatim>\<open>Connection\<close> of \<^verbatim>\<open>by_isp_coverage/connection.py\<close>
  is not among the sources. The specification describes it as a value with the text
  fields region, city, street, provider, house and status.
\<close>

record connection =
  region :: ustr
  city :: ustr
  street :: ustr
  provider :: ustr
  house :: ustr
  status :: ustr

datatype field = House | Provider | Region | City | Street | Status

fun getattr :: "connection \<Rightarrow> field \<Rightarrow> ustr" where
  "getattr c House = house c"
| "getattr c Provider = provider c"
| "getattr c Region = region c"
| "getattr c City = city c"
| "getattr c Street = street c"
| "getattr c Status = status c"

fun override :: "connection \<Rightarrow> field \<times> ustr \<Rightarrow> connection" where
  "override c (House, v) = c\<lparr>house := v\<rparr>"
| "override c (Provider, v) = c\<lparr>provider := v\<rparr>"
| "override c (Region, v) = c\<lparr>region := v\<rparr>"
| "override c (City, v) = c\<lparr>city := v\<rparr>"
| "override c (Street, v) = c\<lparr>street := v\<rparr>"
| "override c (Status, v) = c\<lparr>status := v\<rparr>"

text \<open>
  Connection objects are mutable and are passed by reference (a strategy's callback
  assigns to \<^verbatim>\<open>c.status\<close>), so they live in a store: the list of all objects created
  so far, an object's reference being its index.
\<close>

type_synonym addr = nat
type_synonym heap = "connection list"

text \<open>
  Modelled from the spec: \<^verbatim>\<open>Connection.from_modified_connection(c, **overrides)\<close>, the
  "copy with override" operation, which "takes the original record plus a set of
  field:value overrides and returns a new independent record". The new object gets the
  next free reference; the original is only read.
\<close>

definition from_modified_connection ::
    "heap \<Rightarrow> addr \<Rightarrow> (field \<times> ustr) list \<Rightarrow> addr \<times> heap" where
  "from_modified_connection h c kwargs = (length h, h @ [foldl override (h ! c) kwargs])"

section \<open>The field strategies\<close>

text \<open>
  A strategy returns a list whose elements are either a string or a pair of a string
  and a callback; a callback receives a reference to a connection and may assign to it.
\<close>

type_synonym callback = "addr \<Rightarrow> heap \<Rightarrow> heap"

datatype strategy_value = Plain ustr | WithCallback ustr callback

type_synonym strategy = "ustr \<Rightarrow> strategy_value list"

subsection \<open>City\<close>

text \<open>
  \<^verbatim>\<open>CITY_PARTS_TO_EXCLUDE = ("d.g.p.", "p.g.t", "ag.", "g.p.", "agr.", "d.", "g.", "p.", "k.")\<close>
  in Cyrillic letters (here transliterated).
\<close>

definition CITY_PARTS_TO_EXCLUDE :: "ustr list" where
  "CITY_PARTS_TO_EXCLUDE =
     [[1076, 46, 1075, 46, 1087, 46], [1087, 46, 1075, 46, 1090], [1072, 1075, 46],
      [1075, 46, 1087, 46], [1072, 1075, 1088, 46], [1076, 46], [1075, 46], [1087, 46],
      [1082, 46]]"

text \<open>The suffix \<^verbatim>\<open>" p"\<close>: a space and the Cyrillic letter pe.\<close>

definition space_pe :: ustr where
  "space_pe = [32, 1087]"

definition exclude_part :: "ustr \<Rightarrow> ustr \<Rightarrow> ustr" where
  "exclude_part city_s part = (if contains city_s part then str_replace city_s part [] else city_s)"

definition validate_city_field :: strategy where
  "validate_city_field city_s =
     (let city1 = (if endswith city_s space_pe then str_replace city_s space_pe [] else city_s);
          city2 = foldl exclude_part city1 CITY_PARTS_TO_EXCLUDE;
          city3 = title (lower city2)
      in [Plain (strip city3)])"

subsection \<open>House\<close>

text \<open>
  \<^verbatim>\<open>RE_BUILDING_NUMBER = ^(?P<house_number>\d+),?(?P<delimiter>([-/\s]*| (k|K)\.[ ]?))()()(?P<building>\w+)$\<close>,
  where k and K are the Cyrillic letter ka (U+043A, U+041A). The two empty groups match
  the empty string and capture nothing that is used.
\<close>

definition RE_BUILDING_NUMBER :: rx where
  "RE_BUILDING_NUMBER =
     Cat Bos
    (Cat (Grp ''house_number'' (Plus is_decimal))
    (Cat (Opt (Chr (\<lambda>c. c = 44)))
    (Cat (Grp ''delimiter''
            (Alt (Star (\<lambda>c. c = 45 \<or> c = 47 \<or> rx_space c))
                 (Cat (Chr (\<lambda>c. c = 32))
                 (Cat (Alt (Chr (\<lambda>c. c = 1082)) (Chr (\<lambda>c. c = 1050)))
                 (Cat (Chr (\<lambda>c. c = 46))
                      (Opt (Chr (\<lambda>c. c = 32))))))))
    (Cat (Grp ''building'' (Plus is_word))
         Eos))))"

text \<open>The markers \<^verbatim>\<open>"yur. litsa"\<close> and \<^verbatim>\<open>"yuridicheskie litsa"\<close> (legal persons).\<close>

definition yur_litsa :: ustr where
  "yur_litsa = [1102, 1088, 46, 32, 1083, 1080, 1094, 1072]"

definition yuridicheskie_litsa :: ustr where
  "yuridicheskie_litsa =
     [1102, 1088, 1080, 1076, 1080, 1095, 1077, 1089, 1082, 1080, 1077, 32, 1083, 1080, 1094, 1072]"

definition YUR_LITSA :: ustr where
  "YUR_LITSA = [1070, 1056, 46, 32, 1051, 1048, 1062, 1040]"

definition is_for_artificial_person :: "ustr \<Rightarrow> bool" where
  "is_for_artificial_person house_str =
     (let s = lower house_str in contains s yur_litsa \<or> contains s yuridicheskie_litsa)"

text \<open>\<^verbatim>\<open>c.status = c.status + " (yuridicheskie litsa)"\<close>: an assignment to the object \<open>c\<close>.\<close>

definition status_update_callback :: callback where
  "status_update_callback c h =
     h[c := (h ! c)\<lparr>status := status (h ! c) @ [32, 40] @ yuridicheskie_litsa @ [41]\<rparr>]"

text \<open>\<^verbatim>\<open>"{} (korpus {})".format(house_number, building)\<close>.\<close>

definition format_korpus :: "ustr \<Rightarrow> ustr \<Rightarrow> ustr" where
  "format_korpus house_number building =
     house_number @ [32, 40, 1082, 1086, 1088, 1087, 1091, 1089, 32] @ building @ [41]"

definition validate_house_field :: strategy where
  "validate_house_field house_s =
     (if isdecimal house_s then [Plain house_s]
      else case rx_match RE_BUILDING_NUMBER house_s of
        Some d \<Rightarrow> [Plain (format_korpus (groupdict d ''house_number'') (groupdict d ''building''))]
      | None \<Rightarrow>
          if is_for_artificial_person house_s then
            (let house1 = str_replace house_s ([40] @ yuridicheskie_litsa @ [41]) [];
                 house2 = str_replace house1 YUR_LITSA [];
                 house3 = str_replace house2 yur_litsa []
             in [WithCallback (strip house3) status_update_callback])
          else if contains house_s [44] then
            (let house1 = str_replace house_s [32] []
             in map Plain (filter (\<lambda>h. h \<noteq> []) (split house1 44)))
          else [Plain house_s])"

subsection \<open>Status, region, provider\<close>

definition validate_status_field :: strategy where
  "validate_status_field status_s = [Plain status_s]"

definition validate_region_field :: strategy where
  "validate_region_field region_s = [Plain region_s]"

definition validate_provider_field :: strategy where
  "validate_provider_field provider_s = [Plain provider_s]"

section \<open>Toponyms\<close>

text \<open>
  The type names \<^verbatim>\<open>ulitsa\<close> (street), \<^verbatim>\<open>pereulok\<close> (lane), \<^verbatim>\<open>prospekt\<close> (avenue),
  \<^verbatim>\<open>proezd\<close> (passage), \<^verbatim>\<open>bulvar\<close> (boulevard), \<^verbatim>\<open>mikrorayon\<close> (microdistrict),
  \<^verbatim>\<open>poselok\<close> (settlement) and \<^verbatim>\<open>agrogorodok\<close> (agro-town), in Cyrillic letters.
\<close>

definition ulitsa :: ustr where
  "ulitsa = [1091, 1083, 1080, 1094, 1072]"

definition pereulok :: ustr where
  "pereulok = [1087, 1077, 1088, 1077, 1091, 1083, 1086, 1082]"

definition prospekt :: ustr where
  "prospekt = [1087, 1088, 1086, 1089, 1087, 1077, 1082, 1090]"

definition proezd :: ustr where
  "proezd = [1087, 1088, 1086, 1077, 1079, 1076]"

definition bulvar :: ustr where
  "bulvar = [1073, 1091, 1083, 1100, 1074, 1072, 1088]"

definition mikrorayon :: ustr where
  "mikrorayon = [1084, 1080, 1082, 1088, 1086, 1088, 1072, 1081, 1086, 1085]"

definition poselok :: ustr where
  "poselok = [1087, 1086, 1089, 1077, 1083, 1086, 1082]"

definition agrogorodok :: ustr where
  "agrogorodok = [1072, 1075, 1088, 1086, 1075, 1086, 1088, 1086, 1076, 1086, 1082]"

text \<open>
  \<^verbatim>\<open>MANUAL_MAP\<close>: \<^verbatim>\<open>"3iy per Volchetskogo"\<close> is the lane \<^verbatim>\<open>"3-y Volchetskogo"\<close>, and
  \<^verbatim>\<open>"A/G LESNOY ALEKSANDROVA UL."\<close> is the street \<^verbatim>\<open>"Aleksandrova (agrogorodok Lesnoy)"\<close>.
\<close>

definition MANUAL_MAP :: "(ustr \<times> (ustr \<times> ustr)) list" where
  "MANUAL_MAP =
     [([51, 1080, 1081, 32, 1087, 1077, 1088, 32, 1042, 1086, 1083, 1095, 1077, 1094, 1082,
        1086, 1075, 1086],
       (pereulok,
        [51, 45, 1081, 32, 1042, 1086, 1083, 1095, 1077, 1094, 1082, 1086, 1075, 1086])),
      ([1040, 47, 1043, 32, 1051, 1045, 1057, 1053, 1054, 1049, 32, 1040, 1051, 1045, 1050,
        1057, 1040, 1053, 1044, 1056, 1054, 1042, 1040, 32, 1059, 1051, 46],
       (ulitsa,
        [1040, 1083, 1077, 1082, 1089, 1072, 1085, 1076, 1088, 1086, 1074, 1072, 32, 40]
          @ agrogorodok @ [32, 1051, 1077, 1089, 1085, 1086, 1081, 41]))]"

text \<open>
  \<^verbatim>\<open>TYPE_MAP\<close>, every pattern compiled with \<^verbatim>\<open>IGNORECASE\<close>; transliterated:
  \<^verbatim>\<open>(prz\.|pr\-d|proezd)\<close>, \<^verbatim>\<open>(pos\.|poselok)\<close>, \<^verbatim>\<open>(mr\-n|mikrorayon)\<close>, \<^verbatim>\<open>(a\/g)\<close>,
  \<^verbatim>\<open>(pereulok|per\.)\<close>, \<^verbatim>\<open>(b\-r|bul\.|bulvar)\<close>, \<^verbatim>\<open>(ul\,|\, ul\.|\, ul|ul\.|ulitsa)\<close>,
  \<^verbatim>\<open>(prospekt|pr-kt|pr-t|pr\.)\<close>.
\<close>

definition TYPE_MAP :: "(rx \<times> ustr) list" where
  "TYPE_MAP =
     [(alts [lit_i [1087, 1088, 1079, 46], lit_i [1087, 1088, 45, 1076], lit_i proezd], proezd),
      (alts [lit_i [1087, 1086, 1089, 46], lit_i poselok], poselok),
      (alts [lit_i [1084, 1088, 45, 1085], lit_i mikrorayon], mikrorayon),
      (alts [lit_i [1072, 47, 1075]], agrogorodok),
      (alts [lit_i pereulok, lit_i [1087, 1077, 1088, 46]], pereulok),
      (alts [lit_i [1073, 45, 1088], lit_i [1073, 1091, 1083, 46], lit_i bulvar], bulvar),
      (alts [lit_i [1091, 1083, 44], lit_i [44, 32, 1091, 1083, 46], lit_i [44, 32, 1091, 1083],
             lit_i [1091, 1083, 46], lit_i ulitsa], ulitsa),
      (alts [lit_i prospekt, lit_i [1087, 1088, 45, 1082, 1090], lit_i [1087, 1088, 45, 1090],
             lit_i [1087, 1088, 46]], prospekt)]"

record toponym =
  original_str :: ustr
  default_type :: ustr
  toponym_type :: "ustr option"
  toponym_name :: ustr

text \<open>
  \<^verbatim>\<open>_extract_type_and_name\<close>: the loop over \<^verbatim>\<open>TYPE_MAP\<close> returns at the first pattern
  that is found in the name.
\<close>

fun extract_from :: "(rx \<times> ustr) list \<Rightarrow> ustr \<Rightarrow> ustr option \<times> ustr" where
  "extract_from [] name = (None, strip name)"
| "extract_from ((type_regex, type_value) # rest) name =
     (case rx_search type_regex name of
        Some (start, end) \<Rightarrow>
          (let new_name = str_replace name (slice name start end) []
           in (Some type_value, strip new_name))
      | None \<Rightarrow> extract_from rest name)"

definition extract_type_and_name :: "ustr \<Rightarrow> ustr option \<times> ustr" where
  "extract_type_and_name name = extract_from TYPE_MAP name"

definition normalize_name :: "ustr \<Rightarrow> ustr" where
  "normalize_name name = title name"

text \<open>
  \<^verbatim>\<open>tokenize\<close> computes the attributes \<^verbatim>\<open>_type\<close> and \<^verbatim>\<open>_name\<close>; the constructor stores
  the two strings it was given and calls it.
\<close>

definition tokenize :: "ustr \<Rightarrow> ustr \<Rightarrow> ustr option \<times> ustr" where
  "tokenize dflt name =
     (case map_of MANUAL_MAP name of
        Some (t, n) \<Rightarrow> (Some t, n)
      | None \<Rightarrow>
          (case extract_type_and_name name of
             (None, n) \<Rightarrow> (Some dflt, normalize_name n)
           | (Some t, n) \<Rightarrow> (Some t, normalize_name n)))"

definition Toponym :: "ustr \<Rightarrow> ustr \<Rightarrow> toponym" where
  "Toponym s dflt =
     (case tokenize dflt s of
        (t, n) \<Rightarrow> \<lparr>original_str = s, default_type = dflt, toponym_type = t, toponym_name = n\<rparr>)"

text \<open>\<^verbatim>\<open>"{type} {name}".format(...)\<close>; Python prints the null value as \<^verbatim>\<open>None\<close>.\<close>

definition format :: "toponym \<Rightarrow> ustr" where
  "format t =
     (case toponym_type t of Some ty \<Rightarrow> ty | None \<Rightarrow> [78, 111, 110, 101]) @ [32] @ toponym_name t"

definition validate_street_field :: strategy where
  "validate_street_field street_s = [Plain (format (Toponym street_s ulitsa))]"

section \<open>The orchestrator\<close>

datatype error = AttributeError string | TypeError | ConfigurationError

record validator =
  self_fields :: "string list"

text \<open>
  \<^verbatim>\<open>ConnectionValidator(...)\<close>: \<^verbatim>\<open>__init__(self, fields=None)\<close> declares one parameter, so a
  call that passes a keyword argument of another name raises TypeError before the body
  runs. The arguments of a call are the value given for \<^verbatim>\<open>fields\<close> (if any) and the
  names of the other keyword arguments. An absent, null or empty \<^verbatim>\<open>fields\<close> selects
  the default list.
\<close>

definition ConnectionValidator :: "string list option \<Rightarrow> string list \<Rightarrow> error + validator" where
  "ConnectionValidator fields_arg other_keywords =
     (if other_keywords \<noteq> [] then Inl TypeError
      else Inr \<lparr>self_fields =
        (case fields_arg of
           None \<Rightarrow> [''house'', ''provider'', ''region'', ''city'', ''street'', ''status'']
         | Some fs \<Rightarrow>
             if fs = [] then [''house'', ''provider'', ''region'', ''city'', ''street'', ''status'']
             else fs)\<rparr>)"

text \<open>
  \<^verbatim>\<open>getattr(self, "validate_{}_field".format(field))\<close> looks the name up among the
  attributes of the validator; the strategy found is applied to the attribute of the
  connection that has the same field name.
\<close>

definition strategies :: "(string \<times> field \<times> strategy) list" where
  "strategies =
     [(''validate_city_field'', City, validate_city_field),
      (''validate_house_field'', House, validate_house_field),
      (''validate_status_field'', Status, validate_status_field),
      (''validate_region_field'', Region, validate_region_field),
      (''validate_provider_field'', Provider, validate_provider_field),
      (''validate_street_field'', Street, validate_street_field)]"

definition strategy_name :: "string \<Rightarrow> string" where
  "strategy_name field_name = ''validate_'' @ field_name @ ''_field''"

definition validate_strategy :: "string \<Rightarrow> error + field \<times> strategy" where
  "validate_strategy field_name =
     (case map_of strategies (strategy_name field_name) of
        None \<Rightarrow> Inl (AttributeError (strategy_name field_name))
      | Some fs \<Rightarrow> Inr fs)"

text \<open>
  The body of the inner loop of \<^verbatim>\<open>__validate_field\<close> for one element \<open>f\<close> of the
  strategy's result. For a pair, \<^verbatim>\<open>f[1]\<close> is the callback: the connection is built with
  the field set to \<^verbatim>\<open>f[0]\<close>, the callback is run on it, and it is yielded. For a string
  of fewer than two characters \<^verbatim>\<open>f[1]\<close> raises IndexError; for a longer string \<^verbatim>\<open>f[1]\<close>
  is a character, a connection is built with the field set to the first character
  \<^verbatim>\<open>f[0]\<close>, and calling the character raises TypeError. In both cases the handler
  yields a connection built with the field set to \<open>f\<close>.
\<close>

fun yield_for :: "field \<Rightarrow> addr \<Rightarrow> strategy_value \<Rightarrow> heap \<Rightarrow> addr \<times> heap" where
  "yield_for fld c (WithCallback v callback) h =
     (case from_modified_connection h c [(fld, v)] of
        (conn, h1) \<Rightarrow> (conn, callback conn h1))"
| "yield_for fld c (Plain f) h =
     (if length f < 2 then from_modified_connection h c [(fld, f)]
      else (case from_modified_connection h c [(fld, [f ! 0])] of
              (conn, h1) \<Rightarrow> from_modified_connection h1 c [(fld, f)]))"

text \<open>
  \<^verbatim>\<open>validate_connections\<close> chains one generator per configured field, each reading the
  one before it, and runs nothing until its result is consumed. Consuming the result
  starts the generators from the last to the first, so every strategy is looked up
  (the last field's first) before any connection is read. After that each connection of
  the input travels through all the passes before the next one is read: a pass asked
  for its next output either continues with the next value of the strategy's result for
  its current connection or asks the pass before it for a new connection. The functions
  below give the connections yielded and the store when the result is consumed to its
  end.
\<close>

fun lookup_strategies :: "string list \<Rightarrow> error + (field \<times> strategy) list" where
  "lookup_strategies [] = Inr []"
| "lookup_strategies (f # fs) =
     (case lookup_strategies fs of
        Inl e \<Rightarrow> Inl e
      | Inr ps \<Rightarrow> (case validate_strategy f of Inl e \<Rightarrow> Inl e | Inr p \<Rightarrow> Inr (p # ps)))"

fun passes :: "(field \<times> strategy) list \<Rightarrow> addr \<Rightarrow> heap \<Rightarrow> addr list \<times> heap"
  and passes_values ::
    "field \<Rightarrow> (field \<times> strategy) list \<Rightarrow> addr \<Rightarrow> strategy_value list \<Rightarrow> heap \<Rightarrow> addr list \<times> heap"
where
  "passes [] c h = ([c], h)"
| "passes ((fld, validate) # rest) c h =
     passes_values fld rest c (validate (getattr (h ! c) fld)) h"
| "passes_values fld rest c [] h = ([], h)"
| "passes_values fld rest c (f # fs) h =
     (case yield_for fld c f h of
        (conn, h1) \<Rightarrow>
          (case passes rest conn h1 of
             (out1, h2) \<Rightarrow>
               (case passes_values fld rest c fs h2 of
                  (out2, h3) \<Rightarrow> (out1 @ out2, h3))))"

fun passes_all :: "(field \<times> strategy) list \<Rightarrow> addr list \<Rightarrow> heap \<Rightarrow> addr list \<times> heap" where
  "passes_all ps [] h = ([], h)"
| "passes_all ps (c # cs) h =
     (case passes ps c h of
        (out1, h1) \<Rightarrow> (case passes_all ps cs h1 of (out2, h2) \<Rightarrow> (out1 @ out2, h2)))"

definition validate_connections ::
    "validator \<Rightarrow> addr list \<Rightarrow> heap \<Rightarrow> error + addr list \<times> heap" where
  "validate_connections v connections h =
     (case lookup_strategies (self_fields v) of
        Inl e \<Rightarrow> Inl e
      | Inr ps \<Rightarrow> Inr (passes_all ps connections h))"

text \<open>
  \<^verbatim>\<open>__validate_field\<close> consumed on its own, as \<^verbatim>\<open>_validate_house\<close> and \<^verbatim>\<open>_validate_city\<close>
  use it: one pass over the connections.
\<close>

definition validate_field :: "string \<Rightarrow> addr list \<Rightarrow> heap \<Rightarrow> error + addr list \<times> heap" where
  "validate_field field_name connections h =
     (case validate_strategy field_name of
        Inl e \<Rightarrow> Inl e
      | Inr p \<Rightarrow> Inr (passes_all [p] connections h))"

text \<open>
  What a consumer of the result sees (\<^verbatim>\<open>list(validator.validate_connections(...))\<close>):
  the error raised, or the connections yielded, each read from the store at the end.
\<close>

definition consume :: "error + addr list \<times> heap \<Rightarrow> error + connection list" where
  "consume r = (case r of Inl e \<Rightarrow> Inl e | Inr (out, h) \<Rightarrow> Inr (map (\<lambda>a. h ! a) out))"

text \<open>
  Two predicates used to state what a run leaves alone. \<open>unchanged h h'\<close>: every object
  of the store \<open>h\<close> is in \<open>h'\<close> at the same reference with the same field values (objects
  may have been added). \<open>from_strategies ps\<close>: every pass of \<open>ps\<close> is a field with its
  strategy as the lookup finds them.
\<close>

definition unchanged :: "heap \<Rightarrow> heap \<Rightarrow> bool" where
  "unchanged h h' = (take (length h) h' = h)"




text \<open>
  The configured field names for which the validator has no attribute
  \<^verbatim>\<open>validate_{field}_field\<close>, in the order of the configuration.
\<close>

definition unconfigured :: "string list \<Rightarrow> string list" where
  "unconfigured fs = filter (\<lambda>f. map_of strategies (strategy_name f) = None) fs"





section \<open>Evaluation rules\<close>

lemmas char_defs = is_decimal_def is_upper_def is_lower_def is_cased_def to_lower_def
  to_upper_def is_space_def rx_space_def is_word_def

lemmas str_defs = lower_def title_def strip_def isdecimal_def startswith_def endswith_def
  slice_def

lemmas rx_defs = greedy_def rx_match_def rx_search_def groupdict_def lit_def lit_i_def alts_def

lemmas house_defs = validate_house_field_def RE_BUILDING_NUMBER_def format_korpus_def
  is_for_artificial_person_def yur_litsa_def yuridicheskie_litsa_def YUR_LITSA_def

section \<open>What a match of a pattern looks like\<close>

lemma take_takeWhile_all:
  "n \<le> length (takeWhile P s) \<Longrightarrow> list_all P (take n s)"
proof -
  assume n: "n \<le> length (takeWhile P s)"
  have "take n s = take n (takeWhile P s @ dropWhile P s)" by simp
  also have "\<dots> = take n (takeWhile P s)" using n by (simp del: takeWhile_dropWhile_id)
  finally have "set (take n s) \<subseteq> set (takeWhile P s)" by (simp add: set_take_subset)
  then show ?thesis by (auto simp: list_all_iff dest: set_takeWhileD)
qed

lemma greedy_mem:
  assumes "(s', g') \<in> set (greedy k P s g)"
  shows "g' = g \<and> (\<exists>w. s = w @ s' \<and> list_all P w \<and> k \<le> length w)"
proof -
  from assms obtain n where n: "s' = drop n s" "g' = g" "k \<le> n" "n \<le> length (takeWhile P s)"
    by (auto simp: greedy_def)
  have le: "n \<le> length s" using n(4) length_takeWhile_le[of P s] by linarith
  have "s = take n s @ s'" using n by simp
  moreover have "list_all P (take n s)" using n(4) by (rule take_takeWhile_all)
  moreover have "k \<le> length (take n s)" using n(3) le by simp
  ultimately show ?thesis using n(2) by blast
qed

lemma rx_m_Cat_mem:
  "(s'', g'') \<in> set (rx_m w (Cat a b) s g) \<longleftrightarrow>
     (\<exists>s' g'. (s', g') \<in> set (rx_m w a s g) \<and> (s'', g'') \<in> set (rx_m w b s' g'))"
  by auto

lemma rx_m_Grp_mem:
  "(s', g') \<in> set (rx_m w (Grp n a) s g) \<longleftrightarrow>
     (\<exists>g0. (s', g0) \<in> set (rx_m w a s g) \<and> g' = (n, take (length s - length s') s) # g0)"
  by auto

lemma rx_m_Chr_mem:
  "(s', g') \<in> set (rx_m w (Chr P) s g) \<longleftrightarrow> (\<exists>c. s = c # s' \<and> P c \<and> g' = g)"
  by (cases s) auto

lemma rx_m_Opt_mem:
  "(s', g') \<in> set (rx_m w (Opt a) s g) \<longleftrightarrow>
     (s', g') \<in> set (rx_m w a s g) \<or> (s' = s \<and> g' = g)"
  by auto

lemma rx_m_Alt_mem:
  "(s', g') \<in> set (rx_m w (Alt a b) s g) \<longleftrightarrow>
     (s', g') \<in> set (rx_m w a s g) \<or> (s', g') \<in> set (rx_m w b s g)"
  by auto


lemma rx_m_Bos_mem:
  "(s', g') \<in> set (rx_m w Bos s g) \<longleftrightarrow> (s' = s \<and> g' = g \<and> length s = length w)"
  by auto

lemma rx_m_suffix:
  "(s', g') \<in> set (rx_m w r s g) \<Longrightarrow> \<exists>u. s = u @ s'"
proof (induction r arbitrary: s g s' g')
  case (Chr P) then show ?case by (auto simp: rx_m_Chr_mem)
next
  case (Cat a b)
  then obtain s1 g1 where 1: "(s1, g1) \<in> set (rx_m w a s g)" and 2: "(s', g') \<in> set (rx_m w b s1 g1)"
    unfolding rx_m_Cat_mem by blast
  from Cat.IH(1)[OF 1] Cat.IH(2)[OF 2] show ?case by auto
next
  case (Star P) then show ?case by (auto dest: greedy_mem)
next
  case (Plus P) then show ?case by (auto dest: greedy_mem)
next
  case (Grp n a) then show ?case unfolding rx_m_Grp_mem by blast
qed auto

lemma building_tail:
  assumes "(s', g') \<in> set (rx_m w (Cat (Grp ''building'' (Plus is_word)) Eos) s g)"
  shows "\<exists>b. s = b @ s' \<and> b \<noteq> [] \<and> list_all is_word b \<and> (s' = [] \<or> s' = [10])
           \<and> g' = (''building'', b) # g"
proof -
  from assms obtain s1 g1 where 1: "(s1, g1) \<in> set (rx_m w (Grp ''building'' (Plus is_word)) s g)"
    and 2: "(s', g') \<in> set (rx_m w Eos s1 g1)"
    unfolding rx_m_Cat_mem by blast
  from 2 have e: "s' = s1" "g' = g1" "s1 = [] \<or> s1 = [10]" by auto
  from 1 obtain g0 where 3: "(s1, g0) \<in> set (greedy 1 is_word s g)"
    and g1: "g1 = (''building'', take (length s - length s1) s) # g0"
    unfolding rx_m_Grp_mem by auto
  from greedy_mem[OF 3] obtain b where b: "g0 = g" "s = b @ s1" "list_all is_word b" "1 \<le> length b"
    by blast
  have "take (length s - length s1) s = b" using b(2) by simp
  with e g1 b show ?thesis by auto
qed

lemma rx_match_mem:
  "rx_match r s = Some d \<Longrightarrow> \<exists>s'. (s', d) \<in> set (rx_m s r s [])"
  by (auto simp: rx_match_def split: list.splits)

lemma delimiter_mem:
  assumes "(s3, g3) \<in> set (rx_m h (Grp ''delimiter''
            (Alt (Star P)
                 (Cat (Chr Q1) (Cat (Alt (Chr Q2) (Chr Q3)) (Cat (Chr Q4) (Opt (Chr Q5))))))) s2 g2)"
  shows "\<exists>dl. s2 = dl @ s3 \<and> g3 = (''delimiter'', dl) # g2"
proof -
  from rx_m_suffix[OF assms] obtain dl where dl: "s2 = dl @ s3" by blast
  from assms obtain g0 where g3: "g3 = (''delimiter'', take (length s2 - length s3) s2) # g0"
    and m: "(s3, g0) \<in> set (rx_m h (Alt (Star P)
                 (Cat (Chr Q1) (Cat (Alt (Chr Q2) (Chr Q3)) (Cat (Chr Q4) (Opt (Chr Q5)))))) s2 g2)"
    unfolding rx_m_Grp_mem by blast
  from m have "g0 = g2"
    unfolding rx_m_Alt_mem rx_m_Cat_mem rx_m_Opt_mem rx_m_Chr_mem
    by (auto dest: greedy_mem)
  with g3 dl show ?thesis by simp
qed

lemma RE_BUILDING_NUMBER_sound:
  assumes "rx_match RE_BUILDING_NUMBER h = Some d"
  shows "\<exists>hn cm dl b tl.
           h = hn @ cm @ dl @ b @ tl \<and> hn \<noteq> [] \<and> list_all is_decimal hn \<and> (cm = [] \<or> cm = [44])
           \<and> b \<noteq> [] \<and> list_all is_word b \<and> (tl = [] \<or> tl = [10])
           \<and> d = [(''building'', b), (''delimiter'', dl), (''house_number'', hn)]"
proof -
  from rx_match_mem[OF assms] obtain s' where m: "(s', d) \<in> set (rx_m h RE_BUILDING_NUMBER h [])"
    by blast
  from m obtain s1 g1 s2 g2 s3 g3 where
        1: "(s1, g1) \<in> set (rx_m h (Grp ''house_number'' (Plus is_decimal)) h [])"
    and 2: "(s2, g2) \<in> set (rx_m h (Opt (Chr (\<lambda>c. c = 44))) s1 g1)"
    and 3: "(s3, g3) \<in> set (rx_m h (Grp ''delimiter''
            (Alt (Star (\<lambda>c. c = 45 \<or> c = 47 \<or> rx_space c))
                 (Cat (Chr (\<lambda>c. c = 32))
                 (Cat (Alt (Chr (\<lambda>c. c = 1082)) (Chr (\<lambda>c. c = 1050)))
                 (Cat (Chr (\<lambda>c. c = 46))
                      (Opt (Chr (\<lambda>c. c = 32)))))))) s2 g2)"
    and 4: "(s', d) \<in> set (rx_m h (Cat (Grp ''building'' (Plus is_word)) Eos) s3 g3)"
    unfolding RE_BUILDING_NUMBER_def rx_m_Cat_mem rx_m_Bos_mem by blast
  from 1 obtain g0 where m1: "(s1, g0) \<in> set (greedy 1 is_decimal h [])"
    and g1: "g1 = [(''house_number'', take (length h - length s1) h)]"
    unfolding rx_m_Grp_mem by (auto dest: greedy_mem)
  from greedy_mem[OF m1] obtain hn where hn: "h = hn @ s1" "list_all is_decimal hn" "1 \<le> length hn"
    by blast
  have gm1: "g1 = [(''house_number'', hn)]" using g1 hn(1) by simp
  from 2 have "g2 = g1 \<and> (s1 = 44 # s2 \<or> s1 = s2)"
    unfolding rx_m_Opt_mem rx_m_Chr_mem by auto
  then obtain cm where cm: "g2 = g1" "s1 = cm @ s2" "cm = [] \<or> cm = [44]" by auto
  from delimiter_mem[OF 3] obtain dl where dl: "s2 = dl @ s3" "g3 = (''delimiter'', dl) # g2"
    by blast
  from building_tail[OF 4] obtain b where b: "s3 = b @ s'" "b \<noteq> []" "list_all is_word b"
    "s' = [] \<or> s' = [10]" "d = (''building'', b) # g3" by blast
  have "h = hn @ cm @ dl @ b @ s'" using hn(1) cm(2) dl(1) b(1) by simp
  moreover have "hn \<noteq> []" using hn(3) by auto
  moreover have "d = [(''building'', b), (''delimiter'', dl), (''house_number'', hn)]"
    using b(5) dl(2) cm(1) gm1 by simp
  ultimately show ?thesis using hn(2) cm(3) b(2,3,4) by blast
qed

section \<open>Toponyms: the resolved type\<close>

lemma extract_from_no_match:
  "list_all (\<lambda>p. rx_search (fst p) name = None) rules \<Longrightarrow>
     extract_from rules name = (None, strip name)"
  by (induction rules) auto

text \<open>
  The loop over the type rules stops at the first rule whose pattern is found; what it
  removes from the name is every occurrence of the text of the match.
\<close>

lemma extract_from_first_match:
  "list_all (\<lambda>p. rx_search (fst p) name = None) before \<Longrightarrow>
   rx_search type_regex name = Some (start, end) \<Longrightarrow>
     extract_from (before @ (type_regex, type_value) # rest) name =
       (Some type_value, strip (str_replace name (slice name start end) []))"
  by (induction before) auto

lemma toponym_type_cases:
  "toponym_type (Toponym s d) =
     (case map_of MANUAL_MAP s of
        Some (t, n) \<Rightarrow> Some t
      | None \<Rightarrow> (case fst (extract_type_and_name s) of None \<Rightarrow> Some d | Some t \<Rightarrow> Some t))"
  by (auto simp: Toponym_def tokenize_def split: option.splits prod.splits)

text \<open>
  C8. The constructor of a toponym is a total function of the string and the default
  type: none of the operations it applies to a string (dictionary lookup, pattern
  search, replace, strip, title) can raise. The type it resolves is never null, and it
  is the default type when the string is not a key of the manual map and no type
  pattern is found in it.
\<close>

theorem toponym_type_never_null:
  "toponym_type (Toponym s d) \<noteq> None \<and>
   (map_of MANUAL_MAP s = None \<and> list_all (\<lambda>p. rx_search (fst p) s = None) TYPE_MAP \<longrightarrow>
      toponym_type (Toponym s d) = Some d)"
  by (auto simp: toponym_type_cases extract_type_and_name_def extract_from_no_match
           split: option.splits prod.splits)

lemmas type_defs = ulitsa_def pereulok_def prospekt_def proezd_def bulvar_def mikrorayon_def
  poselok_def agrogorodok_def

lemmas toponym_defs = validate_street_field_def format_def Toponym_def tokenize_def
  normalize_name_def extract_type_and_name_def MANUAL_MAP_def TYPE_MAP_def

text \<open>The witness: \<^verbatim>\<open>Toponym("lenina", default_type="ulitsa")\<close> (in Cyrillic letters).\<close>

theorem toponym_type_never_null_witness:
  "map_of MANUAL_MAP [1083, 1077, 1085, 1080, 1085, 1072] = None \<and>
   list_all (\<lambda>p. rx_search (fst p) [1083, 1077, 1085, 1080, 1085, 1072] = None) TYPE_MAP \<and>
   toponym_type (Toponym [1083, 1077, 1085, 1080, 1085, 1072] ulitsa) = Some ulitsa"
proof -
  have a: "map_of MANUAL_MAP [1083, 1077, 1085, 1080, 1085, 1072] = None"
    by (simp add: MANUAL_MAP_def)
  have b: "list_all (\<lambda>p. rx_search (fst p) [1083, 1077, 1085, 1080, 1085, 1072] = None) TYPE_MAP"
    by (simp add: TYPE_MAP_def rx_defs char_defs type_defs)
  show ?thesis
    using a b toponym_type_never_null [of "[1083, 1077, 1085, 1080, 1085, 1072]" ulitsa]
    by blast
qed

text \<open>
  C7. The first rule whose pattern is found decides the type, and the remainder is
  trimmed (\<open>extract_from_first_match\<close>), but the code removes the text of the match
  wherever it occurs in the name, not only the matched span. On
  \<^verbatim>\<open>"PROEZD PROEZDNOY"\<close> (Cyrillic capitals) the first rule matches the span from 0 to 6;
  removing that span leaves \<^verbatim>\<open>"PROEZDNOY"\<close>, and the code returns \<^verbatim>\<open>"NOY"\<close>.
\<close>

theorem extract_type_and_name_removes_other_occurrences:
  "rx_search (fst (hd TYPE_MAP))
     [1055, 1056, 1054, 1045, 1047, 1044, 32, 1055, 1056, 1054, 1045, 1047, 1044, 1053, 1054, 1049]
     = Some (0, 6) \<and>
   extract_type_and_name
     [1055, 1056, 1054, 1045, 1047, 1044, 32, 1055, 1056, 1054, 1045, 1047, 1044, 1053, 1054, 1049]
     = (Some proezd, [1053, 1054, 1049]) \<and>
   strip (take 0 [1055, 1056, 1054, 1045, 1047, 1044, 32, 1055, 1056, 1054, 1045, 1047, 1044,
                  1053, 1054, 1049] @
          drop 6 [1055, 1056, 1054, 1045, 1047, 1044, 32, 1055, 1056, 1054, 1045, 1047, 1044,
                  1053, 1054, 1049])
     = [1055, 1056, 1054, 1045, 1047, 1044, 1053, 1054, 1049]"
  by (simp add: extract_type_and_name_def TYPE_MAP_def rx_defs str_defs char_defs type_defs)

section \<open>The constructor of the validator and the street strategy\<close>

lemma validate_strategy_known:
  "validate_strategy ''house'' = Inr (House, validate_house_field)"
  "validate_strategy ''provider'' = Inr (Provider, validate_provider_field)"
  "validate_strategy ''region'' = Inr (Region, validate_region_field)"
  "validate_strategy ''city'' = Inr (City, validate_city_field)"
  "validate_strategy ''street'' = Inr (Street, validate_street_field)"
  "validate_strategy ''status'' = Inr (Status, validate_status_field)"
  by (simp_all add: validate_strategy_def strategy_name_def strategies_def)

lemmas passthrough_defs = validate_status_field_def validate_region_field_def
  validate_provider_field_def

lemma validate_city_field_steps:
  "validate_city_field city_s =
     [Plain (strip (title (lower (foldl exclude_part
        (if endswith city_s space_pe then str_replace city_s space_pe [] else city_s)
        CITY_PARTS_TO_EXCLUDE))))]"
  by (simp add: validate_city_field_def Let_def)

lemmas city_defs = CITY_PARTS_TO_EXCLUDE_def exclude_part_def space_pe_def

text \<open>
  C1. The constructor accepts the keyword \<^verbatim>\<open>fields\<close> only: a call that passes
  \<^verbatim>\<open>pre_replacement_street_map\<close> raises TypeError, as the call in the test
  \<^verbatim>\<open>test_pre_validation_hook\<close> does. A validator built without it turns the street
  \<^verbatim>\<open>"test"\<close> (Cyrillic letters) of the test's connection into \<^verbatim>\<open>"ulitsa Test"\<close>, not
  into \<^verbatim>\<open>"ulitsa novaya testovaya"\<close>.
\<close>

theorem pre_replacement_street_map_not_accepted:
  "ConnectionValidator None [''pre_replacement_street_map''] = Inl TypeError \<and>
   validate_street_field [1090, 1077, 1089, 1090] =
     [Plain [1091, 1083, 1080, 1094, 1072, 32, 1058, 1077, 1089, 1090]] \<and>
   consume (validate_connections
      \<lparr>self_fields = [''house'', ''provider'', ''region'', ''city'', ''street'', ''status'']\<rparr> [0]
      [\<lparr>region = [116, 101, 115, 116], city = [116, 101, 115, 116],
        street = [1090, 1077, 1089, 1090], provider = [116, 101, 115, 116], house = [49],
        status = []\<rparr>])
     = Inr [\<lparr>region = [116, 101, 115, 116], city = [84, 101, 115, 116],
             street = [1091, 1083, 1080, 1094, 1072, 32, 1058, 1077, 1089, 1090],
             provider = [116, 101, 115, 116], house = [49], status = []\<rparr>]"
proof -
  have t: "ConnectionValidator None [''pre_replacement_street_map''] = Inl TypeError"
    by (simp add: ConnectionValidator_def)
  have h: "validate_house_field [49] = [Plain [49]]"
    by (simp add: validate_house_field_def isdecimal_def is_decimal_def)
  have c: "validate_city_field [116, 101, 115, 116] = [Plain [84, 101, 115, 116]]"
    by (simp add: validate_city_field_steps city_defs str_defs char_defs)
  have s: "validate_street_field [1090, 1077, 1089, 1090] =
     [Plain [1091, 1083, 1080, 1094, 1072, 32, 1058, 1077, 1089, 1090]]"
    by (simp add: toponym_defs rx_defs str_defs char_defs type_defs)
  have p: "consume (validate_connections
      \<lparr>self_fields = [''house'', ''provider'', ''region'', ''city'', ''street'', ''status'']\<rparr> [0]
      [\<lparr>region = [116, 101, 115, 116], city = [116, 101, 115, 116],
        street = [1090, 1077, 1089, 1090], provider = [116, 101, 115, 116], house = [49],
        status = []\<rparr>])
     = Inr [\<lparr>region = [116, 101, 115, 116], city = [84, 101, 115, 116],
             street = [1091, 1083, 1080, 1094, 1072, 32, 1058, 1077, 1089, 1090],
             provider = [116, 101, 115, 116], house = [49], status = []\<rparr>]"
    by (simp add: validate_connections_def validate_strategy_known h c s passthrough_defs
          from_modified_connection_def consume_def nth_append)
  from t s p show ?thesis by blast
qed

text \<open>
  What the constructor does accept: a non-empty list of field names is kept as it is,
  and no list, or an empty one, selects the six default fields.
\<close>

lemma ConnectionValidator_fields:
  "fs \<noteq> [] \<Longrightarrow> ConnectionValidator (Some fs) [] = Inr \<lparr>self_fields = fs\<rparr>"
  "ConnectionValidator (Some []) [] = ConnectionValidator None []"
  "ConnectionValidator None [] =
     Inr \<lparr>self_fields = [''house'', ''provider'', ''region'', ''city'', ''street'', ''status'']\<rparr>"
  by (simp_all add: ConnectionValidator_def)

section \<open>The city strategy\<close>

text \<open>
  A city that does not end in \<^verbatim>\<open>" p"\<close> goes through the exclusion list, is title-cased
  and trimmed; the two examples of the specification, \<^verbatim>\<open>"Hotimsk g.p."\<close> and
  \<^verbatim>\<open>"Sennitsa"\<close>, give \<^verbatim>\<open>"Hotimsk"\<close> and \<^verbatim>\<open>"Sennitsa"\<close>.
\<close>

lemma validate_city_field_no_suffix:
  "\<not> endswith city_s space_pe \<Longrightarrow>
     validate_city_field city_s =
       [Plain (strip (title (lower (foldl exclude_part city_s CITY_PARTS_TO_EXCLUDE))))]"
  by (simp add: validate_city_field_steps)

lemma validate_city_field_examples:
  "validate_city_field [1061, 1086, 1090, 1080, 1084, 1089, 1082, 32, 1075, 46, 1087, 46] =
     [Plain [1061, 1086, 1090, 1080, 1084, 1089, 1082]]"
  "validate_city_field [1057, 1077, 1085, 1085, 1080, 1094, 1072] =
     [Plain [1057, 1077, 1085, 1085, 1080, 1094, 1072]]"
  by (simp_all add: validate_city_field_steps city_defs str_defs char_defs)

text \<open>
  C6. For a city that ends in \<^verbatim>\<open>" p"\<close> the code removes every occurrence of \<^verbatim>\<open>" p"\<close>,
  not only the suffix. \<^verbatim>\<open>"Krasnaya polyana p"\<close> (Cyrillic letters) ends in \<^verbatim>\<open>" p"\<close>;
  without its last two characters it normalises to \<^verbatim>\<open>"Krasnaya Polyana"\<close>, and the code
  returns \<^verbatim>\<open>"Krasnayaolyana"\<close>.
\<close>

theorem validate_city_field_removes_every_space_pe:
  "endswith [1050, 1088, 1072, 1089, 1085, 1072, 1103, 32, 1087, 1086, 1083, 1103, 1085, 1072,
             32, 1087] space_pe \<and>
   validate_city_field
     [1050, 1088, 1072, 1089, 1085, 1072, 1103, 32, 1087, 1086, 1083, 1103, 1085, 1072, 32, 1087]
     = [Plain [1050, 1088, 1072, 1089, 1085, 1072, 1103, 1086, 1083, 1103, 1085, 1072]] \<and>
   strip (title (lower (foldl exclude_part
      [1050, 1088, 1072, 1089, 1085, 1072, 1103, 32, 1087, 1086, 1083, 1103, 1085, 1072]
      CITY_PARTS_TO_EXCLUDE)))
     = [1050, 1088, 1072, 1089, 1085, 1072, 1103, 32, 1055, 1086, 1083, 1103, 1085, 1072]"
  by (simp add: validate_city_field_steps city_defs str_defs char_defs)

section \<open>What a run leaves alone\<close>





lemma unchanged_append: "unchanged h (h @ xs)"
  by (simp add: unchanged_def)












section \<open>Field names without a strategy\<close>

lemma lookup_strategies_unconfigured:
  "lookup_strategies fs =
     (if unconfigured fs = []
      then Inr (map (\<lambda>f. the (map_of strategies (strategy_name f))) fs)
      else Inl (AttributeError (strategy_name (last (unconfigured fs)))))"
proof (induction fs)
  case Nil
  show ?case by (simp add: unconfigured_def)
next
  case (Cons f fs)
  show ?case
  proof (cases "unconfigured fs = []")
    case True
    then show ?thesis
      using Cons by (cases "map_of strategies (strategy_name f)")
        (simp_all add: unconfigured_def validate_strategy_def)
  next
    case False
    then show ?thesis
      using Cons by (simp add: unconfigured_def)
  qed
qed

text \<open>
  C9. If the configured field list holds a name for which the validator has no
  strategy, consuming \<^verbatim>\<open>validate_connections\<close> raises the AttributeError of the failed
  \<^verbatim>\<open>getattr\<close>, for the last such name of the list, whatever the connections are (also
  for none at all): the strategies are looked up before a connection is read. It is
  never a ConfigurationError. If every name has a strategy, no error is raised.
\<close>

theorem unconfigured_field_raises_AttributeError:
  "(unconfigured (self_fields v) \<noteq> [] \<longrightarrow>
      validate_connections v connections h =
        Inl (AttributeError (strategy_name (last (unconfigured (self_fields v))))) \<and>
      validate_connections v connections h \<noteq> Inl ConfigurationError) \<and>
   (unconfigured (self_fields v) = [] \<longrightarrow>
      (\<exists>r. validate_connections v connections h = Inr r))"
  by (simp add: validate_connections_def lookup_strategies_unconfigured)

theorem unconfigured_field_raises_AttributeError_witness:
  "unconfigured [''foo'', ''house'', ''bar''] = [''foo'', ''bar''] \<and>
   validate_connections \<lparr>self_fields = [''foo'', ''house'', ''bar'']\<rparr> [] [] =
     Inl (AttributeError ''validate_bar_field'') \<and>
   unconfigured [''house''] = [] \<and>
   validate_connections \<lparr>self_fields = [''house'']\<rparr> [] [] = Inr ([], [])"
proof -
  have u: "unconfigured [''foo'', ''house'', ''bar''] = [''foo'', ''bar'']"
    by (simp add: unconfigured_def strategies_def strategy_name_def)
  have w: "unconfigured [''house''] = []"
    by (simp add: unconfigured_def strategies_def strategy_name_def)
  have r: "validate_connections \<lparr>self_fields = [''house'']\<rparr> [] [] = Inr ([], [])"
    by (simp add: validate_connections_def validate_strategy_known)
  show ?thesis
    using u w r
      unconfigured_field_raises_AttributeError
        [of "\<lparr>self_fields = [''foo'', ''house'', ''bar'']\<rparr>" "[]" "[]"]
      unconfigured_field_raises_AttributeError [of "\<lparr>self_fields = [''house'']\<rparr>" "[]" "[]"]
    by (simp add: strategy_name_def)
qed

text \<open>
  The field list \<^verbatim>\<open>("city", "foo")\<close> has a name without a strategy, and the error raised
  is the AttributeError for \<^verbatim>\<open>validate_foo_field\<close>, not a ConfigurationError.
\<close>

theorem unconfigured_field_no_ConfigurationError:
  "unconfigured [''city'', ''foo''] \<noteq> [] \<and>
   validate_connections \<lparr>self_fields = [''city'', ''foo'']\<rparr> [] [] =
     Inl (AttributeError ''validate_foo_field'') \<and>
   validate_connections \<lparr>self_fields = [''city'', ''foo'']\<rparr> [] [] \<noteq> Inl ConfigurationError"
proof -
  have f: "validate_strategy ''foo'' = Inl (AttributeError ''validate_foo_field'')"
    by (simp add: validate_strategy_def strategies_def strategy_name_def)
  have u: "unconfigured [''city'', ''foo''] = [''foo'']"
    by (simp add: unconfigured_def strategies_def strategy_name_def)
  show ?thesis
    using u by (simp add: validate_connections_def f)
qed

section \<open>The house strategy: values that yield nothing\<close>

lemma contains_single: "contains s [c] = (c \<in> set s)"
  by (induction s) (auto simp: startswith_def)

lemma contains_subset: "contains s sub \<Longrightarrow> set sub \<subseteq> set s"
proof (induction s)
  case Nil
  then show ?case by simp
next
  case (Cons c cs)
  from Cons.prems have "startswith (c # cs) sub \<or> contains cs sub" by simp
  then show ?case
  proof
    assume "startswith (c # cs) sub"
    then have "sub = take (length sub) (c # cs)" by (simp add: startswith_def)
    then have "set sub \<subseteq> set (c # cs)" by (metis set_take_subset)
    then show ?thesis .
  next
    assume "contains cs sub"
    then show ?thesis using Cons.IH by auto
  qed
qed

lemma str_replace_single_empty: "str_replace s [c] [] = filter (\<lambda>x. x \<noteq> c) s"
  by (induction s) (auto simp: startswith_def)

lemma split_not_Nil: "split s sep \<noteq> []"
  by (induction s) (auto split: list.splits)

lemma split_all_empty:
  "(filter (\<lambda>w. w \<noteq> []) (split s sep) = []) = (set s \<subseteq> {sep})"
  by (induction s) (auto split: list.splits simp: split_not_Nil)

lemma validate_house_field_Nil_iff:
  "(validate_house_field h = []) = (44 \<in> set h \<and> set h \<subseteq> {32, 44})"
proof
  assume e: "validate_house_field h = []"
  have d: "\<not> isdecimal h" using e by (auto simp: validate_house_field_def)
  have m: "rx_match RE_BUILDING_NUMBER h = None"
    using e d by (auto simp: validate_house_field_def split: option.splits)
  have a: "\<not> is_for_artificial_person h"
    using e d m by (auto simp: validate_house_field_def Let_def)
  have c: "contains h [44]"
    using e d m a by (auto simp: validate_house_field_def split: if_splits)
  have f: "filter (\<lambda>w. w \<noteq> []) (split (str_replace h [32] []) 44) = []"
    using e d m a c by (simp add: validate_house_field_def)
  then have "set (filter (\<lambda>x. x \<noteq> 32) h) \<subseteq> {44}"
    unfolding split_all_empty str_replace_single_empty .
  then have "set h \<subseteq> {32, 44}" by auto
  then show "44 \<in> set h \<and> set h \<subseteq> {32, 44}" using c by (simp add: contains_single)
next
  assume s: "44 \<in> set h \<and> set h \<subseteq> {32, 44}"
  have d: "\<not> isdecimal h"
  proof
    assume "isdecimal h"
    then have "is_decimal 44" using s by (simp add: isdecimal_def list_all_iff)
    then show False by (simp add: is_decimal_def)
  qed
  have m: "rx_match RE_BUILDING_NUMBER h = None"
  proof (cases "rx_match RE_BUILDING_NUMBER h")
    case None
    then show ?thesis .
  next
    case (Some d)
    from RE_BUILDING_NUMBER_sound[OF Some] obtain hn cm dl b tl where
      x: "h = hn @ cm @ dl @ b @ tl" "hn \<noteq> []" "list_all is_decimal hn" by blast
    then have "hd hn \<in> set h" "is_decimal (hd hn)" by (auto simp: list_all_iff)
    then show ?thesis using s by (auto simp: is_decimal_def)
  qed
  have l: "lower h = h"
    unfolding lower_def using s by (intro map_idI) (auto simp: to_lower_def)
  have a: "\<not> is_for_artificial_person h"
    using s contains_subset[of h yur_litsa] contains_subset[of h yuridicheskie_litsa]
    by (auto simp: is_for_artificial_person_def l yur_litsa_def yuridicheskie_litsa_def)
  have c: "contains h [44]" using s by (simp add: contains_single)
  have "set (filter (\<lambda>x. x \<noteq> 32) h) \<subseteq> {44}" using s by auto
  then have f: "filter (\<lambda>w. w \<noteq> []) (split (str_replace h [32] []) 44) = []"
    unfolding split_all_empty str_replace_single_empty .
  show "validate_house_field h = []"
    using d m a c f by (simp add: validate_house_field_def)
qed

text \<open>
  C10. The house strategy returns the empty list exactly for the values that contain a
  comma and otherwise only commas and spaces (U+0020), such as \<^verbatim>\<open>","\<close>. A connection
  with such a house yields nothing: one pass over the house field, and the validator
  with the default fields (where the house pass is the first), give for the connections
  \<open>c # cs\<close> what they give for \<open>cs\<close>, with no error and no new object.
\<close>

theorem validate_house_field_drops_commas_and_spaces:
  "(validate_house_field house_s = [] \<longleftrightarrow> 44 \<in> set house_s \<and> set house_s \<subseteq> {32, 44}) \<and>
   (validate_house_field (house (h ! c)) = [] \<longrightarrow>
      validate_field ''house'' (c # cs) h = validate_field ''house'' cs h \<and>
      (ConnectionValidator None [] = Inr v \<longrightarrow>
         validate_connections v (c # cs) h = validate_connections v cs h))"
proof (intro conjI impI)
  show "validate_house_field house_s = [] \<longleftrightarrow> 44 \<in> set house_s \<and> set house_s \<subseteq> {32, 44}"
    by (rule validate_house_field_Nil_iff)
next
  assume e: "validate_house_field (house (h ! c)) = []"
  show "validate_field ''house'' (c # cs) h = validate_field ''house'' cs h"
    using e by (simp add: validate_field_def validate_strategy_known)
next
  assume e: "validate_house_field (house (h ! c)) = []"
    and v: "ConnectionValidator None [] = Inr v"
  have f: "self_fields v = [''house'', ''provider'', ''region'', ''city'', ''street'', ''status'']"
    using v by (auto simp: ConnectionValidator_def)
  show "validate_connections v (c # cs) h = validate_connections v cs h"
    using e by (simp add: validate_connections_def f validate_strategy_known)
qed

theorem validate_house_field_drops_commas_and_spaces_witness:
  "validate_house_field [44] = [] \<and>
   validate_field ''house'' [0]
     [\<lparr>region = [116, 101, 115, 116], city = [116, 101, 115, 116], street = [116, 101, 115, 116],
       provider = [116, 101, 115, 116], house = [44], status = []\<rparr>] =
     Inr ([], [\<lparr>region = [116, 101, 115, 116], city = [116, 101, 115, 116],
       street = [116, 101, 115, 116], provider = [116, 101, 115, 116], house = [44],
       status = []\<rparr>]) \<and>
   validate_connections
     \<lparr>self_fields = [''house'', ''provider'', ''region'', ''city'', ''street'', ''status'']\<rparr> [0]
     [\<lparr>region = [116, 101, 115, 116], city = [116, 101, 115, 116], street = [116, 101, 115, 116],
       provider = [116, 101, 115, 116], house = [44], status = []\<rparr>] =
     Inr ([], [\<lparr>region = [116, 101, 115, 116], city = [116, 101, 115, 116],
       street = [116, 101, 115, 116], provider = [116, 101, 115, 116], house = [44],
       status = []\<rparr>])"
  using validate_house_field_drops_commas_and_spaces
    [of "[44]"
        "[\<lparr>region = [116, 101, 115, 116], city = [116, 101, 115, 116], street = [116, 101, 115, 116],
           provider = [116, 101, 115, 116], house = [44], status = []\<rparr>]"
        0 "[]"
        "\<lparr>self_fields = [''house'', ''provider'', ''region'', ''city'', ''street'', ''status'']\<rparr>"]
  by (simp add: ConnectionValidator_def validate_field_def validate_connections_def
        validate_strategy_known)

text \<open>
  The empty house value is not decimal and its only comma-separated segment is empty,
  but the strategy returns it as it is and the connection is yielded. The value of a
  comma and a tab has two segments, both empty once whitespace is removed, but the
  strategy returns the tab: only spaces are removed.
\<close>

theorem validate_house_field_keeps_blank_values:
  "\<not> isdecimal [] \<and>
   list_all (\<lambda>segment. filter (\<lambda>c. \<not> is_space c) segment = []) (split [] 44) \<and>
   validate_house_field [] = [Plain []] \<and>
   validate_field ''house'' [0]
     [\<lparr>region = [116, 101, 115, 116], city = [116, 101, 115, 116], street = [116, 101, 115, 116],
       provider = [116, 101, 115, 116], house = [], status = []\<rparr>] =
     Inr ([1],
       [\<lparr>region = [116, 101, 115, 116], city = [116, 101, 115, 116], street = [116, 101, 115, 116],
         provider = [116, 101, 115, 116], house = [], status = []\<rparr>,
        \<lparr>region = [116, 101, 115, 116], city = [116, 101, 115, 116], street = [116, 101, 115, 116],
         provider = [116, 101, 115, 116], house = [], status = []\<rparr>]) \<and>
   \<not> isdecimal [44, 9] \<and>
   list_all (\<lambda>segment. filter (\<lambda>c. \<not> is_space c) segment = []) (split [44, 9] 44) \<and>
   validate_house_field [44, 9] = [Plain [9]]"
proof -
  have a: "validate_house_field [] = [Plain []]"
    by (simp add: house_defs rx_defs str_defs char_defs Let_def)
  have b: "validate_house_field [44, 9] = [Plain [9]]"
    by (simp add: house_defs rx_defs str_defs char_defs Let_def)
  show ?thesis
    by (simp add: a b isdecimal_def is_space_def is_decimal_def validate_field_def
          validate_strategy_known from_modified_connection_def)
qed

section \<open>The house strategy: decimal values and building numbers\<close>












lemma in_alphabet_append: "in_alphabet (a @ b) = (in_alphabet a \<and> in_alphabet b)"
  by (simp add: in_alphabet_def)



section \<open>What the passes yield\<close>








section \<open>The house strategy: legal persons\<close>





section \<open>The house strategy: lists of houses\<close>















end
